theory Spec2Isabelle
  imports Complex_Main
begin

section \<open>Values and configuration\<close>

text \<open>
  The calculators of \<^verbatim>\<open>taxes.py\<close> compute with Python floats. Their
  amounts are modelled as real numbers: every arithmetic operation is exact. The statements
  about the calculators are statements about this exact arithmetic.
\<close>

text \<open>
  A total read from the ledger tool's output is whatever \<^verbatim>\<open>float\<close> makes
  of a string, and that may be an infinity or \<^verbatim>\<open>nan\<close>. Such a total is a
  \<open>pyfloat\<close>: a real number or one of the three special values.
\<close>

datatype pyfloat = Finite real | PosInf | NegInf | NaN

text \<open>\<^verbatim>\<open>abs(x)\<close> on a float.\<close>

fun py_abs :: "pyfloat \<Rightarrow> pyfloat" where
  "py_abs (Finite r) = Finite \<bar>r\<bar>"
| "py_abs PosInf = PosInf"
| "py_abs NegInf = PosInf"
| "py_abs NaN = NaN"

text \<open>\<^verbatim>\<open>x >= 0\<close> on a float: every comparison with \<^verbatim>\<open>nan\<close> is false.\<close>

fun py_nonneg :: "pyfloat \<Rightarrow> bool" where
  "py_nonneg (Finite r) = (0 \<le> r)"
| "py_nonneg PosInf = True"
| "py_nonneg NegInf = False"
| "py_nonneg NaN = False"

text \<open>
  A scalar loaded from a YAML file. Python's \<^verbatim>\<open>bool\<close> is a subclass of
  \<^verbatim>\<open>int\<close>, so a YAML boolean is a number for \<^verbatim>\<open>==\<close> and for
  \<^verbatim>\<open>isinstance(x, (int, float))\<close>. \<open>YOther\<close> stands for sequences
  and mappings.
\<close>

datatype yaml_value = YStr string | YInt int | YFloat real | YBool bool | YNull | YOther

text \<open>\<^verbatim>\<open>isinstance(v, (int, float))\<close> together with \<^verbatim>\<open>float(v)\<close>.\<close>

fun numeric_value :: "yaml_value \<Rightarrow> real option" where
  "numeric_value (YInt i) = Some (of_int i)"
| "numeric_value (YFloat r) = Some r"
| "numeric_value (YBool b) = Some (if b then 1 else 0)"
| "numeric_value (YStr s) = None"
| "numeric_value YNull = None"
| "numeric_value YOther = None"

text \<open>\<^verbatim>\<open>v == "text"\<close>: only a string equals a string.\<close>

fun eq_str :: "yaml_value \<Rightarrow> string \<Rightarrow> bool" where
  "eq_str (YStr s) t = (s = t)"
| "eq_str (YInt i) t = False"
| "eq_str (YFloat r) t = False"
| "eq_str (YBool b) t = False"
| "eq_str YNull t = False"
| "eq_str YOther t = False"

text \<open>\<^verbatim>\<open>v == 0\<close>: numbers compare by value, anything else is unequal.\<close>

definition eq_zero :: "yaml_value \<Rightarrow> bool" where
  "eq_zero v = (numeric_value v = Some 0)"

text \<open>
  The keys of \<^verbatim>\<open>hledger_parameters/personal.yaml\<close> that the calculators
  read. \<open>None\<close> is an absent key.
\<close>

record personal_params =
  filing_status :: "string option"
  solo_401k_contribution :: "yaml_value option"
  interest_by_year :: "(string \<rightharpoonup> real) option"
  interest_account :: "string option"
  principal :: "real option"
  monthly_rate :: "real option"
  payment :: "real option"
  start_year :: "int option"

text \<open>
  One filing status' entry of the federal parameter file, with the two keys the
  calculators below read through \<^verbatim>\<open>.get(key, 200000)\<close>.
\<close>

record fed_params =
  niit_threshold :: "real option"
  medicare_threshold :: "real option"

text \<open>\<^verbatim>\<open>load_tax_params(year)['federal']\<close>: filing status to entry.\<close>

type_synonym federal_table = "string \<rightharpoonup> fed_params"

text \<open>The exceptions that the modelled code raises or lets through.\<close>

datatype error = ValueError | IndexError | CalledProcessError | FileNotFoundError

text \<open>\<^verbatim>\<open>d.get(key, default)\<close> on the looked-up key.\<close>

definition get_default :: "'a \<Rightarrow> 'a option \<Rightarrow> 'a" where
  "get_default d v = (case v of None \<Rightarrow> d | Some x \<Rightarrow> x)"

text \<open>
  \<^verbatim>\<open>str(i)\<close> for an integer: its decimal digits, with a minus sign for a
  negative one.
\<close>

function str_nat :: "nat \<Rightarrow> string" where
  "str_nat n =
     (if n < 10 then [''0123456789'' ! n]
      else str_nat (n div 10) @ [''0123456789'' ! (n mod 10)])"
  by pat_completeness auto
termination
  by (relation "measure id") auto

declare str_nat.simps [simp del]

definition py_str :: "int \<Rightarrow> string" where
  "py_str i = (if i < 0 then CHR ''-'' # str_nat (nat (- i)) else str_nat (nat i))"

section \<open>Ledger queries\<close>

subsection \<open>Strings\<close>

text \<open>
  The output of the ledger tool is a Python \<^verbatim>\<open>str\<close>: a sequence of Unicode
  code points, here natural numbers.
\<close>

type_synonym pystr = "nat list"

text \<open>
  The code points that \<^verbatim>\<open>str.isspace\<close> accepts; \<^verbatim>\<open>strip()\<close>
  and \<^verbatim>\<open>split()\<close> without arguments treat exactly these as white space.
\<close>

definition is_space :: "nat \<Rightarrow> bool" where
  "is_space c =
     (c \<in> {9, 10, 11, 12, 13, 28, 29, 30, 31, 32, 133, 160, 5760} \<or>
      (8192 \<le> c \<and> c \<le> 8202) \<or>
      c \<in> {8232, 8233, 8239, 8287, 12288})"

text \<open>The line boundaries of \<^verbatim>\<open>str.splitlines\<close>.\<close>

definition is_linebreak :: "nat \<Rightarrow> bool" where
  "is_linebreak c = (c \<in> {10, 11, 12, 13, 28, 29, 30, 133, 8232, 8233})"

definition strip :: "pystr \<Rightarrow> pystr" where
  "strip s = rev (dropWhile is_space (rev (dropWhile is_space s)))"

text \<open>
  \<^verbatim>\<open>splitlines()\<close>: \<open>line\<close> holds the current line in reverse. A
  carriage return followed by a line feed is one boundary, and a boundary at the very end
  opens no further line.
\<close>

fun splitlines_from :: "pystr \<Rightarrow> pystr \<Rightarrow> pystr list" where
  "splitlines_from line [] = (if line = [] then [] else [rev line])"
| "splitlines_from line [c] = (if is_linebreak c then [rev line] else [rev (c # line)])"
| "splitlines_from line (c # d # cs) =
     (if c = 13 \<and> d = 10 then rev line # splitlines_from [] cs
      else if is_linebreak c then rev line # splitlines_from [] (d # cs)
      else splitlines_from (c # line) (d # cs))"

definition splitlines :: "pystr \<Rightarrow> pystr list" where
  "splitlines s = splitlines_from [] s"

text \<open>
  \<^verbatim>\<open>split()\<close>: the maximal runs of characters that are not white space;
  \<open>word\<close> holds the current run in reverse.
\<close>

fun split_from :: "pystr \<Rightarrow> pystr \<Rightarrow> pystr list" where
  "split_from word [] = (if word = [] then [] else [rev word])"
| "split_from word (c # cs) =
     (if is_space c
      then (if word = [] then split_from [] cs else rev word # split_from [] cs)
      else split_from (c # word) cs)"

definition split :: "pystr \<Rightarrow> pystr list" where
  "split s = split_from [] s"

text \<open>\<^verbatim>\<open>s.replace(c, '')\<close> for a single character \<open>c\<close>.\<close>

definition remove_char :: "nat \<Rightarrow> pystr \<Rightarrow> pystr" where
  "remove_char c s = filter (\<lambda>d. d \<noteq> c) s"

subsection \<open>Parsing the output\<close>

text \<open>
  Python's \<^verbatim>\<open>float\<close> on a string is the parameter \<open>py_float\<close>;
  \<open>None\<close> is its \<^verbatim>\<open>ValueError\<close>, the only exception the source
  catches here. The indexing \<^verbatim>\<open>[-1]\<close> and \<^verbatim>\<open>[0]\<close> raises
  \<^verbatim>\<open>IndexError\<close> on an empty list; 36 is the dollar sign, 44 the comma.
\<close>

definition parse_hledger_output ::
  "(pystr \<Rightarrow> pyfloat option) \<Rightarrow> pystr \<Rightarrow> error + pyfloat" where
  "parse_hledger_output py_float output =
     (if strip output = [] then Inr (Finite 0)
      else (case splitlines (strip output) of
              [] \<Rightarrow> Inl IndexError
            | l # ls \<Rightarrow>
                (let last_line = last (l # ls)
                 in case split last_line of
                      [] \<Rightarrow> Inl IndexError
                    | field # rest \<Rightarrow>
                        (let total_str = remove_char 44 (remove_char 36 field)
                         in case py_float total_str of
                              None \<Rightarrow> Inr (Finite 0)
                            | Some amount \<Rightarrow> Inr (py_abs amount)))))"

subsection \<open>Running a query\<close>

text \<open>
  The cache file maps the hash of the journal directory to a table from
  \<^verbatim>\<open>(tuple(args), year)\<close> to the cached total.
\<close>

type_synonym cache_key = "string list \<times> int option"

type_synonym cache = "string \<rightharpoonup> (cache_key \<rightharpoonup> pyfloat)"

text \<open>The command line that \<^verbatim>\<open>run_hledger_command\<close> builds.\<close>

definition hledger_cmd :: "string list \<Rightarrow> int option \<Rightarrow> bool \<Rightarrow> string list" where
  "hledger_cmd args year add_format =
     [''hledger'', ''bal''] @
     (case year of None \<Rightarrow> [] | Some y \<Rightarrow> [''-p'', py_str y]) @
     args @ (if add_format then [''-1''] else [])"

text \<open>
  \<^verbatim>\<open>journal_hash in cache and cache_key in cache[journal_hash]\<close>, with the
  cached total when both hold.
\<close>

definition cache_lookup :: "cache \<Rightarrow> string \<Rightarrow> cache_key \<Rightarrow> pyfloat option" where
  "cache_lookup cache journal_hash cache_key =
     (case cache journal_hash of
        None \<Rightarrow> None
      | Some entries \<Rightarrow> entries cache_key)"

text \<open>
  The surroundings of \<^verbatim>\<open>run_hledger_command\<close> are parameters.
  \<open>subprocess_run\<close> gives the standard output of a command, or the exception that
  \<^verbatim>\<open>subprocess.run\<close> raises: the source catches
  \<^verbatim>\<open>CalledProcessError\<close>, the command's own failure, and lets every other
  one through, such as the \<^verbatim>\<open>FileNotFoundError\<close> of a missing executable.
  \<open>journal_hash\<close> is the result of \<^verbatim>\<open>hash_journal_dir\<close>;
  \<open>cache\<close> is what \<^verbatim>\<open>load_cache\<close> returns, and nothing checks the
  totals in it; \<open>save_ok\<close> tells whether \<^verbatim>\<open>save_cache\<close> manages to
  write (it ignores its own failure). The function returns its result and the cache file's
  new content.
\<close>

definition run_hledger_command ::
  "(pystr \<Rightarrow> pyfloat option) \<Rightarrow> (string list \<Rightarrow> error + pystr) \<Rightarrow> string \<Rightarrow> bool \<Rightarrow> cache \<Rightarrow>
   string list \<Rightarrow> int option \<Rightarrow> bool \<Rightarrow> error + pyfloat \<times> cache" where
  "run_hledger_command py_float subprocess_run journal_hash save_ok cache args year add_format =
     (let cmd = hledger_cmd args year add_format;
          cache_key = (args, year)
      in case cache_lookup cache journal_hash cache_key of
           Some cached \<Rightarrow> Inr (cached, cache)
         | None \<Rightarrow>
             (case subprocess_run cmd of
                Inl e \<Rightarrow> (if e = CalledProcessError then Inr (Finite 0, cache) else Inl e)
              | Inr stdout \<Rightarrow>
                  (case parse_hledger_output py_float stdout of
                     Inl e \<Rightarrow> Inl e
                   | Inr result \<Rightarrow>
                       (let entries = get_default Map.empty (cache journal_hash);
                            cache' = cache(journal_hash \<mapsto> entries(cache_key \<mapsto> result))
                        in Inr (result, if save_ok then cache' else cache)))))"

text \<open>Every total in the cache is non-negative.\<close>

definition cache_nonneg :: "cache \<Rightarrow> bool" where
  "cache_nonneg cache =
     (\<forall>h entries k v. cache h = Some entries \<and> entries k = Some v \<longrightarrow> py_nonneg v)"

section \<open>Calculators\<close>

subsection \<open>Self-employment tax\<close>

definition compute_self_employment_tax :: "real \<Rightarrow> real" where
  "compute_self_employment_tax net_business_income = net_business_income * 0.9235 * 0.029"

subsection \<open>Solo 401(k) contribution\<close>

definition compute_solo_401k_contribution :: "personal_params \<Rightarrow> real \<Rightarrow> real" where
  "compute_solo_401k_contribution params net_business_income =
     (let contribution_config = get_default (YStr ''maximize'') (solo_401k_contribution params);
          max_contribution = net_business_income * 0.19732
      in if eq_str contribution_config ''maximize'' then max_contribution
         else if eq_str contribution_config ''none'' \<or> eq_zero contribution_config then 0
         else (case numeric_value contribution_config of
                 Some p \<Rightarrow> max_contribution * (p / 100)
               | None \<Rightarrow> max_contribution))"

subsection \<open>Social Security true-up\<close>

text \<open>The source also prints the remaining limit; the print is not modelled.\<close>

definition compute_social_security_tax ::
  "personal_params \<Rightarrow> real \<Rightarrow> real \<Rightarrow> real \<Rightarrow> real \<Rightarrow> real" where
  "compute_social_security_tax params w2_medicare net_business_income ss_max soc_tax_paid =
     (let status = get_default ''joint'' (filing_status params);
          ss_max = (if status = ''joint'' then ss_max * 2 else ss_max);
          w2_ss_tax = min (w2_medicare * 0.124) ss_max;
          remaining_ss_limit = max 0 (ss_max - w2_ss_tax);
          se_ss_tax = min (net_business_income * 0.9235 * 0.124) remaining_ss_limit;
          total_ss_tax_owed = w2_ss_tax + se_ss_tax;
          ss_extra = total_ss_tax_owed - soc_tax_paid
      in - ss_extra)"

subsection \<open>Federal parameter lookup\<close>

text \<open>
  The lookup that \<^verbatim>\<open>compute_investment_tax\<close> and
  \<^verbatim>\<open>compute_medicare_tax\<close> both perform: the entry of the filing status,
  else the entry of \<^verbatim>\<open>'joint'\<close>, else \<^verbatim>\<open>ValueError\<close>.
\<close>

definition lookup_fed_params :: "federal_table \<Rightarrow> string \<Rightarrow> error + fed_params" where
  "lookup_fed_params federal status =
     (case federal status of
        Some p \<Rightarrow> Inr p
      | None \<Rightarrow> (case federal ''joint'' of
                   Some p \<Rightarrow> Inr p
                 | None \<Rightarrow> Inl ValueError))"

subsection \<open>Net investment income tax\<close>

definition compute_investment_tax ::
  "personal_params \<Rightarrow> federal_table \<Rightarrow> real \<Rightarrow> real \<Rightarrow> error + real" where
  "compute_investment_tax params federal investment_income agi =
     (let status = get_default ''joint'' (filing_status params)
      in case lookup_fed_params federal status of
           Inl e \<Rightarrow> Inl e
         | Inr fp \<Rightarrow>
             (let threshold = get_default 200000 (niit_threshold fp)
              in if agi \<le> threshold then Inr 0
                 else (let taxable_amount = min investment_income (agi - threshold)
                       in Inr (0.038 * max taxable_amount 0))))"

subsection \<open>Medicare true-up\<close>

definition compute_medicare_tax ::
  "personal_params \<Rightarrow> federal_table \<Rightarrow> real \<Rightarrow> real \<Rightarrow> real \<Rightarrow> error + real" where
  "compute_medicare_tax params federal w2_medicare net_business_income med_tax_paid =
     (let status = get_default ''single'' (filing_status params)
      in case lookup_fed_params federal status of
           Inl e \<Rightarrow> Inl e
         | Inr fp \<Rightarrow>
             (let threshold = get_default 200000 (medicare_threshold fp);
                  medicare_tax = 0.0145 * w2_medicare;
                  medicare_extra =
                    max 0 (w2_medicare + net_business_income * 0.9235 - threshold) * 0.009;
                  total = medicare_tax + medicare_extra
              in Inr (max (total - med_tax_paid) 0)))"

subsection \<open>Mortgage interest\<close>

text \<open>
  The two local functions of \<^verbatim>\<open>compute_interest\<close>, with the loan parameters
  they capture as arguments. The month count \<open>m\<close> is an integer and never negative
  where they are called, so \<^verbatim>\<open>pow(1 + monthly_rate, m)\<close> is a power with
  a natural exponent.
\<close>

definition balance_after :: "real \<Rightarrow> real \<Rightarrow> real \<Rightarrow> int \<Rightarrow> real" where
  "balance_after principal' monthly_rate' payment' m =
     (if monthly_rate' = 0 then principal' - payment' * of_int m
      else (let factor = (1 + monthly_rate') ^ nat m
            in principal' * factor - payment' * (factor - 1) / monthly_rate'))"

definition interest_paid_until :: "real \<Rightarrow> real \<Rightarrow> real \<Rightarrow> int \<Rightarrow> real" where
  "interest_paid_until principal' monthly_rate' payment' m =
     (let total_paid = payment' * of_int m;
          remaining_balance = balance_after principal' monthly_rate' payment' m;
          principal_reduction = principal' - remaining_balance
      in total_paid - principal_reduction)"

text \<open>
  The three sources of the interest figure, tried in the order of the source. The second
  one queries the ledger, so \<open>compute_interest\<close> takes the surroundings of
  \<open>run_hledger_command\<close> and returns the cache file's content with its result, a
  float like the ledger's totals.
\<close>

definition compute_interest ::
  "(pystr \<Rightarrow> pyfloat option) \<Rightarrow> (string list \<Rightarrow> error + pystr) \<Rightarrow> string \<Rightarrow> bool \<Rightarrow> cache \<Rightarrow>
   personal_params \<Rightarrow> int \<Rightarrow> error + pyfloat \<times> cache" where
  "compute_interest py_float subprocess_run journal_hash save_ok cache params year =
     (case (case interest_by_year params of
              None \<Rightarrow> None
            | Some by_year \<Rightarrow> by_year (py_str year)) of
        Some override \<Rightarrow> Inr (Finite override, cache)
      | None \<Rightarrow>
          (case interest_account params of
             Some account \<Rightarrow>
               run_hledger_command py_float subprocess_run journal_hash save_ok cache
                 [''bal'', account] (Some year) True
           | None \<Rightarrow>
               (case (principal params, monthly_rate params, payment params, start_year params) of
                  (Some principal', Some monthly_rate', Some payment', Some start_year') \<Rightarrow>
                    (let start_month = max 0 (12 * (year - start_year'));
                         end_month = start_month + 12
                     in Inr (Finite
                               (interest_paid_until principal' monthly_rate' payment' end_month -
                                interest_paid_until principal' monthly_rate' payment' start_month),
                             cache))
                | _ \<Rightarrow> Inr (Finite 0, cache))))"

subsection \<open>Bracket tax\<close>

text \<open>
  An entry of a bracket table: a mapping read through \<^verbatim>\<open>bracket['threshold']\<close>
  and \<^verbatim>\<open>bracket['rate']\<close>, so both keys are present.
\<close>

record bracket =
  threshold :: real
  rate :: real

text \<open>
  The body of the loop \<^verbatim>\<open>for i, bracket in enumerate(brackets)\<close>: the tax after
  the entry at index \<open>i\<close>, from the tax before it.
\<close>

definition bracket_step :: "real \<Rightarrow> bracket list \<Rightarrow> nat \<Rightarrow> real \<Rightarrow> real" where
  "bracket_step taxable_income brackets i tax =
     (let threshold = threshold (brackets ! i);
          rate = rate (brackets ! i)
      in if i + 1 = length brackets
         then tax + (if taxable_income > threshold then (taxable_income - threshold) * rate else 0)
         else (let next_threshold = bracket.threshold (brackets ! (i + 1))
               in if taxable_income > threshold
                  then tax + (min taxable_income next_threshold - threshold) * rate
                  else tax))"

definition compute_bracket_tax :: "real \<Rightarrow> bracket list \<Rightarrow> real" where
  "compute_bracket_tax taxable_income brackets =
     max (fold (bracket_step taxable_income brackets) [0..<length brackets] 0) 0"

subsection \<open>Surcharges\<close>

text \<open>
  A surcharge rule is read through \<^verbatim>\<open>s.get('threshold', 0)\<close> and
  \<^verbatim>\<open>s.get('rate', 0)\<close>: either key may be absent. The rule list itself may be
  \<^verbatim>\<open>None\<close> (\<^verbatim>\<open>surcharges or []\<close>).
\<close>

record surcharge =
  surcharge_threshold :: "real option"
  surcharge_rate :: "real option"

definition surcharge_step :: "real \<Rightarrow> surcharge \<Rightarrow> real \<Rightarrow> real" where
  "surcharge_step taxable_income s total' =
     (let threshold = get_default 0 (surcharge_threshold s);
          rate = get_default 0 (surcharge_rate s)
      in total' + rate * max (taxable_income - threshold) 0)"

definition compute_surcharges :: "real \<Rightarrow> surcharge list option \<Rightarrow> real" where
  "compute_surcharges taxable_income surcharges =
     fold (surcharge_step taxable_income) (get_default [] surcharges) 0"

subsection \<open>The accrual of one bracket\<close>

text \<open>
  The amount that the bracket at index \<open>i\<close> adds, as the specification words it:
  nothing unless the income exceeds the bracket's threshold; otherwise the rate times the
  income above the threshold, capped at the next threshold for every bracket but the last.
\<close>

definition bracket_accrual :: "real \<Rightarrow> bracket list \<Rightarrow> nat \<Rightarrow> real" where
  "bracket_accrual income brackets i =
     (if income > threshold (brackets ! i)
      then rate (brackets ! i) *
           ((if i + 1 = length brackets then income
             else min income (threshold (brackets ! (i + 1)))) - threshold (brackets ! i))
      else 0)"

section \<open>Example configurations\<close>

text \<open>An empty \<^verbatim>\<open>personal.yaml\<close> mapping: every key absent.\<close>

definition empty_params :: personal_params where
  "empty_params =
     \<lparr>filing_status = None, solo_401k_contribution = None, interest_by_year = None,
      interest_account = None, principal = None, monthly_rate = None, payment = None,
      start_year = None\<rparr>"

text \<open>A federal parameter table with entries for two filing statuses.\<close>

definition example_federal :: federal_table where
  "example_federal =
     [''single'' \<mapsto> \<lparr>niit_threshold = Some 200000, medicare_threshold = Some 200000\<rparr>,
      ''joint'' \<mapsto> \<lparr>niit_threshold = Some 250000, medicare_threshold = Some 250000\<rparr>]"

text \<open>The bracket table and the surcharge rule of the specification's examples.\<close>

definition example_brackets :: "bracket list" where
  "example_brackets = [\<lparr>threshold = 0, rate = 0.1\<rparr>, \<lparr>threshold = 10000, rate = 0.2\<rparr>]"

definition example_surcharges :: "surcharge list option" where
  "example_surcharges =
     Some [\<lparr>surcharge_threshold = Some 1000000, surcharge_rate = Some 0.01\<rparr>]"

text \<open>The loan of the specification's amortization example.\<close>

definition example_loan :: personal_params where
  "example_loan =
     empty_params\<lparr>principal := Some 300000, monthly_rate := Some 0.003,
                  payment := Some 1500, start_year := Some 2020\<rparr>"

text \<open>
  Python's \<^verbatim>\<open>float\<close> on the strings that the examples pass to it:
  \<open>numeral_float\<close> knows two numerals and rejects the word \<^verbatim>\<open>'no'\<close>,
  \<open>example_float\<close> knows \<^verbatim>\<open>'nan'\<close> as well. No example asks for
  another string. Then an output of two lines whose last line starts with a negative total.
\<close>

definition numeral_float :: "pystr \<Rightarrow> pyfloat option" where
  "numeral_float s =
     (if s = map of_char ''-1234.50'' then Some (Finite (- 1234.5))
      else if s = map of_char ''1234.50'' then Some (Finite 1234.5)
      else None)"

definition example_float :: "pystr \<Rightarrow> pyfloat option" where
  "example_float s = (if s = map of_char ''nan'' then Some NaN else numeral_float s)"

definition example_output :: pystr where
  "example_output =
     map of_char ''  assets  $10'' @ [10] @ map of_char ''   $-1,234.50  total'' @ [10]"

text \<open>A ledger tool that fails on every command, and one that is not installed.\<close>

definition no_ledger :: "string list \<Rightarrow> error + pystr" where
  "no_ledger cmd = Inl CalledProcessError"

definition missing_ledger :: "string list \<Rightarrow> error + pystr" where
  "missing_ledger cmd = Inl FileNotFoundError"

text \<open>A cache file that holds a negative total for one query.\<close>

definition example_cache :: cache where
  "example_cache = [''h'' \<mapsto> [([''assets''], Some 2024) \<mapsto> Finite (- 5)]]"

section \<open>Properties\<close>

text \<open>
  C7. For every net business income, negative ones included, the self-employment tax is
  exactly \<open>net_business_income * 0.9235 * 0.029\<close>; nothing is clamped, so a negative
  income gives a negative tax.
\<close>

theorem self_employment_tax_unclamped:
  "compute_self_employment_tax n = n * 0.9235 * 0.029 \<and>
   (n < 0 \<longrightarrow> compute_self_employment_tax n < 0)"
  by (simp add: compute_self_employment_tax_def mult_less_0_iff)

theorem self_employment_tax_unclamped_witness:
  "compute_self_employment_tax (-1000) = -26.7815 \<and> compute_self_employment_tax (-1000) < 0"
  using self_employment_tax_unclamped [of "-1000"]
  by (simp add: compute_self_employment_tax_def)

text \<open>
  C1. For every wage total, net business income, wage cap, amount paid and filing status,
  \<open>compute_social_security_tax\<close> returns the negative of
  \<open>w2_ss_tax + se_ss_tax - soc_tax_paid\<close>, where the cap is \<open>2 * ss_max\<close>
  for the status \<open>''joint''\<close> (also the default of an absent status) and
  \<open>ss_max\<close> otherwise, \<open>w2_ss_tax = min (w2_medicare * 0.124) cap\<close> and
  \<open>se_ss_tax = min (net_business_income * 0.9235 * 0.124) (max 0 (cap - w2_ss_tax))\<close>.
  A positive amount of extra tax owed therefore comes back as a negative number.
\<close>

theorem social_security_tax_formula:
  "compute_social_security_tax params w2_medicare net_business_income ss_max soc_tax_paid =
     (let cap = (if get_default ''joint'' (filing_status params) = ''joint''
                 then 2 * ss_max else ss_max);
          w2_ss_tax = min (w2_medicare * 0.124) cap;
          se_ss_tax = min (net_business_income * 0.9235 * 0.124) (max 0 (cap - w2_ss_tax))
      in - (w2_ss_tax + se_ss_tax - soc_tax_paid)) \<and>
   (let cap = (if get_default ''joint'' (filing_status params) = ''joint''
               then 2 * ss_max else ss_max);
        w2_ss_tax = min (w2_medicare * 0.124) cap;
        se_ss_tax = min (net_business_income * 0.9235 * 0.124) (max 0 (cap - w2_ss_tax))
    in 0 < w2_ss_tax + se_ss_tax - soc_tax_paid \<longrightarrow>
       compute_social_security_tax params w2_medicare net_business_income ss_max soc_tax_paid < 0)"
  by (simp add: compute_social_security_tax_def Let_def mult.commute)

theorem social_security_tax_formula_witness:
  "compute_social_security_tax (empty_params\<lparr>filing_status := Some ''single''\<rparr>)
     100000 50000 10000 5000 = - 5000 \<and>
   compute_social_security_tax empty_params 100000 50000 10000 5000 = - 13125.7"
  using social_security_tax_formula
    [of "empty_params\<lparr>filing_status := Some ''single''\<rparr>" 100000 50000 10000 5000]
    social_security_tax_formula [of empty_params 100000 50000 10000 5000]
  by (simp add: empty_params_def get_default_def Let_def)

text \<open>
  C6. With \<open>max_contribution = net_business_income * 0.19732\<close>, the solo 401(k)
  contribution is \<open>max_contribution\<close> for the policy \<open>''maximize''\<close> (and
  for an absent policy), \<open>0\<close> for the policy \<open>''none''\<close> or a number equal
  to zero, \<open>max_contribution * p / 100\<close> for any other number \<open>p\<close>, and
  \<open>max_contribution\<close> for every other value. Numbers are the values Python's
  \<^verbatim>\<open>isinstance(v, (int, float))\<close> accepts: YAML integers, floats and
  booleans. For a net business income of 100000 the policies \<open>''maximize''\<close>, 50
  and \<open>''none''\<close> give 19732, 9866 and 0.
\<close>

theorem solo_401k_contribution_policy:
  "(solo_401k_contribution params = None \<or>
    solo_401k_contribution params = Some (YStr ''maximize'') \<longrightarrow>
      compute_solo_401k_contribution params n = n * 0.19732) \<and>
   (solo_401k_contribution params = Some (YStr ''none'') \<longrightarrow>
      compute_solo_401k_contribution params n = 0) \<and>
   (solo_401k_contribution params = Some v \<and> numeric_value v = Some 0 \<longrightarrow>
      compute_solo_401k_contribution params n = 0) \<and>
   (solo_401k_contribution params = Some v \<and> numeric_value v = Some p \<and> p \<noteq> 0 \<longrightarrow>
      compute_solo_401k_contribution params n = n * 0.19732 * (p / 100)) \<and>
   (solo_401k_contribution params = Some v \<and> numeric_value v = None \<and>
    v \<noteq> YStr ''maximize'' \<and> v \<noteq> YStr ''none'' \<longrightarrow>
      compute_solo_401k_contribution params n = n * 0.19732) \<and>
   compute_solo_401k_contribution
     (empty_params\<lparr>solo_401k_contribution := Some (YStr ''maximize'')\<rparr>) 100000 = 19732 \<and>
   compute_solo_401k_contribution
     (empty_params\<lparr>solo_401k_contribution := Some (YInt 50)\<rparr>) 100000 = 9866 \<and>
   compute_solo_401k_contribution
     (empty_params\<lparr>solo_401k_contribution := Some (YStr ''none'')\<rparr>) 100000 = 0"
  by (cases v) (auto simp: compute_solo_401k_contribution_def get_default_def eq_zero_def
      empty_params_def Let_def)

theorem solo_401k_contribution_policy_witness:
  "compute_solo_401k_contribution empty_params 100000 = 19732 \<and>
   compute_solo_401k_contribution
     (empty_params\<lparr>solo_401k_contribution := Some (YStr ''none'')\<rparr>) 100000 = 0 \<and>
   compute_solo_401k_contribution
     (empty_params\<lparr>solo_401k_contribution := Some (YFloat 0)\<rparr>) 100000 = 0 \<and>
   compute_solo_401k_contribution
     (empty_params\<lparr>solo_401k_contribution := Some (YInt 50)\<rparr>) 100000 = 9866 \<and>
   compute_solo_401k_contribution
     (empty_params\<lparr>solo_401k_contribution := Some (YBool True)\<rparr>) 100000 = 197.32 \<and>
   compute_solo_401k_contribution
     (empty_params\<lparr>solo_401k_contribution := Some (YStr ''all'')\<rparr>) 100000 = 19732"
  using solo_401k_contribution_policy [of empty_params 100000]
    solo_401k_contribution_policy
      [of "empty_params\<lparr>solo_401k_contribution := Some (YStr ''none'')\<rparr>" 100000]
    solo_401k_contribution_policy
      [of "empty_params\<lparr>solo_401k_contribution := Some (YFloat 0)\<rparr>" 100000 "YFloat 0"]
    solo_401k_contribution_policy
      [of "empty_params\<lparr>solo_401k_contribution := Some (YInt 50)\<rparr>" 100000 "YInt 50" 50]
    solo_401k_contribution_policy
      [of "empty_params\<lparr>solo_401k_contribution := Some (YBool True)\<rparr>" 100000 "YBool True" 1]
    solo_401k_contribution_policy
      [of "empty_params\<lparr>solo_401k_contribution := Some (YStr ''all'')\<rparr>" 100000 "YStr ''all''"]
  by (simp add: empty_params_def)

text \<open>
  C3. When the federal entry resolves, with Medicare threshold \<open>t\<close>,
  \<open>compute_medicare_tax\<close> returns
  \<open>max (0.0145 * w2_medicare + 0.009 * max 0 (w2_medicare + net_business_income * 0.9235 - t)
  - med_tax_paid) 0\<close>; when it does not resolve the call raises and returns no number.
  Whatever number is returned is not negative.
\<close>

theorem medicare_tax_formula:
  "(lookup_fed_params federal (get_default ''single'' (filing_status params)) = Inr fp \<longrightarrow>
      compute_medicare_tax params federal w2_medicare net_business_income med_tax_paid =
        Inr (max (0.0145 * w2_medicare +
                  0.009 * max 0 (w2_medicare + net_business_income * 0.9235 -
                                 get_default 200000 (medicare_threshold fp)) -
                  med_tax_paid) 0)) \<and>
   (lookup_fed_params federal (get_default ''single'' (filing_status params)) = Inl e \<longrightarrow>
      compute_medicare_tax params federal w2_medicare net_business_income med_tax_paid = Inl e) \<and>
   (compute_medicare_tax params federal w2_medicare net_business_income med_tax_paid = Inr v \<longrightarrow>
      0 \<le> v)"
  by (auto simp: compute_medicare_tax_def Let_def mult.commute split: sum.splits)

theorem medicare_tax_formula_witness:
  "compute_medicare_tax (empty_params\<lparr>filing_status := Some ''joint''\<rparr>) example_federal
     300000 100000 5000 = Inr 631.15 \<and>
   compute_medicare_tax (empty_params\<lparr>filing_status := Some ''joint''\<rparr>) example_federal
     100000 0 5000 = Inr 0 \<and>
   compute_medicare_tax empty_params Map.empty 100000 0 5000 = Inl ValueError"
  using medicare_tax_formula
      [of example_federal "empty_params\<lparr>filing_status := Some ''joint''\<rparr>"
          "\<lparr>niit_threshold = Some 250000, medicare_threshold = Some 250000\<rparr>"
          300000 100000 5000 ValueError "631.15"]
    medicare_tax_formula
      [of example_federal "empty_params\<lparr>filing_status := Some ''joint''\<rparr>"
          "\<lparr>niit_threshold = Some 250000, medicare_threshold = Some 250000\<rparr>"
          100000 0 5000 ValueError 0]
    medicare_tax_formula [of Map.empty empty_params undefined 100000 0 5000 ValueError 0]
  by (simp add: empty_params_def example_federal_def lookup_fed_params_def get_default_def)

text \<open>
  C4. When the federal entry resolves, with NIIT threshold \<open>t\<close>,
  \<open>compute_investment_tax\<close> returns 0 whenever \<open>agi \<le> t\<close> and otherwise
  \<open>0.038 * max (min investment_income (agi - t)) 0\<close>. In particular, when the AGI
  exceeds the threshold and the investment income exceeds the excess \<open>agi - t\<close>, the
  tax is charged on the excess.
\<close>

theorem investment_tax_formula:
  "(lookup_fed_params federal (get_default ''joint'' (filing_status params)) = Inr fp \<and>
    agi \<le> get_default 200000 (niit_threshold fp) \<longrightarrow>
      compute_investment_tax params federal investment_income agi = Inr 0) \<and>
   (lookup_fed_params federal (get_default ''joint'' (filing_status params)) = Inr fp \<and>
    get_default 200000 (niit_threshold fp) < agi \<longrightarrow>
      compute_investment_tax params federal investment_income agi =
        Inr (0.038 * max (min investment_income (agi - get_default 200000 (niit_threshold fp))) 0)) \<and>
   (lookup_fed_params federal (get_default ''joint'' (filing_status params)) = Inr fp \<and>
    get_default 200000 (niit_threshold fp) < agi \<and>
    agi - get_default 200000 (niit_threshold fp) < investment_income \<longrightarrow>
      compute_investment_tax params federal investment_income agi =
        Inr (0.038 * (agi - get_default 200000 (niit_threshold fp))))"
  by (auto simp: compute_investment_tax_def Let_def)

theorem investment_tax_formula_witness:
  "compute_investment_tax empty_params example_federal 50000 250000 = Inr 0 \<and>
   compute_investment_tax empty_params example_federal 50000 250001 = Inr 0.038 \<and>
   compute_investment_tax empty_params example_federal 50000 400000 = Inr 1900"
  using investment_tax_formula
      [of example_federal empty_params
          "\<lparr>niit_threshold = Some 250000, medicare_threshold = Some 250000\<rparr>" 250000 50000]
    investment_tax_formula
      [of example_federal empty_params
          "\<lparr>niit_threshold = Some 250000, medicare_threshold = Some 250000\<rparr>" 250001 50000]
    investment_tax_formula
      [of example_federal empty_params
          "\<lparr>niit_threshold = Some 250000, medicare_threshold = Some 250000\<rparr>" 400000 50000]
  by (simp add: empty_params_def example_federal_def lookup_fed_params_def get_default_def)

text \<open>
  C10. For a personal configuration without \<open>filing_status\<close>,
  \<open>compute_medicare_tax\<close> looks the Medicare threshold up under the status
  \<open>''single''\<close> and behaves as for that status, while
  \<open>compute_social_security_tax\<close> doubles the cap and
  \<open>compute_investment_tax\<close> looks the NIIT threshold up under \<open>''joint''\<close>,
  both behaving as for the status \<open>''joint''\<close>: the Medicare threshold lookup and
  the doubling of the Social Security cap resolve to different filing statuses in the same
  run.
\<close>

theorem filing_status_defaults_differ:
  "filing_status params = None \<longrightarrow>
     compute_medicare_tax params federal w2_medicare net_business_income med_tax_paid =
       compute_medicare_tax (params\<lparr>filing_status := Some ''single''\<rparr>) federal
         w2_medicare net_business_income med_tax_paid \<and>
     compute_social_security_tax params w2_medicare net_business_income ss_max soc_tax_paid =
       compute_social_security_tax (params\<lparr>filing_status := Some ''joint''\<rparr>)
         w2_medicare net_business_income ss_max soc_tax_paid \<and>
     compute_investment_tax params federal investment_income agi =
       compute_investment_tax (params\<lparr>filing_status := Some ''joint''\<rparr>) federal
         investment_income agi \<and>
     compute_medicare_tax params federal w2_medicare net_business_income med_tax_paid =
       (case lookup_fed_params federal ''single'' of
          Inl e \<Rightarrow> Inl e
        | Inr fp \<Rightarrow>
            Inr (max (0.0145 * w2_medicare +
                      0.009 * max 0 (w2_medicare + net_business_income * 0.9235 -
                                     get_default 200000 (medicare_threshold fp)) -
                      med_tax_paid) 0)) \<and>
     compute_social_security_tax params w2_medicare net_business_income ss_max soc_tax_paid =
       - (min (w2_medicare * 0.124) (2 * ss_max) +
          min (net_business_income * 0.9235 * 0.124)
            (max 0 (2 * ss_max - min (w2_medicare * 0.124) (2 * ss_max))) -
          soc_tax_paid) \<and>
     compute_investment_tax params federal investment_income agi =
       (case lookup_fed_params federal ''joint'' of
          Inl e \<Rightarrow> Inl e
        | Inr fp \<Rightarrow>
            if agi \<le> get_default 200000 (niit_threshold fp) then Inr 0
            else Inr (0.038 * max (min investment_income
                                     (agi - get_default 200000 (niit_threshold fp))) 0))"
proof
  assume absent: "filing_status params = None"
  have medicare_as_single:
    "compute_medicare_tax params federal w2_medicare net_business_income med_tax_paid =
       compute_medicare_tax (params\<lparr>filing_status := Some ''single''\<rparr>) federal
         w2_medicare net_business_income med_tax_paid"
    using absent by (simp add: compute_medicare_tax_def get_default_def)
  have ss_as_joint:
    "compute_social_security_tax params w2_medicare net_business_income ss_max soc_tax_paid =
       compute_social_security_tax (params\<lparr>filing_status := Some ''joint''\<rparr>)
         w2_medicare net_business_income ss_max soc_tax_paid"
    using absent by (simp add: compute_social_security_tax_def get_default_def)
  have niit_as_joint:
    "compute_investment_tax params federal investment_income agi =
       compute_investment_tax (params\<lparr>filing_status := Some ''joint''\<rparr>) federal
         investment_income agi"
    using absent by (simp add: compute_investment_tax_def get_default_def)
  have medicare_value:
    "compute_medicare_tax params federal w2_medicare net_business_income med_tax_paid =
       (case lookup_fed_params federal ''single'' of
          Inl e \<Rightarrow> Inl e
        | Inr fp \<Rightarrow>
            Inr (max (0.0145 * w2_medicare +
                      0.009 * max 0 (w2_medicare + net_business_income * 0.9235 -
                                     get_default 200000 (medicare_threshold fp)) -
                      med_tax_paid) 0))"
    using absent
    by (simp add: compute_medicare_tax_def get_default_def Let_def mult.commute
        split: sum.splits)
  have ss_value:
    "compute_social_security_tax params w2_medicare net_business_income ss_max soc_tax_paid =
       - (min (w2_medicare * 0.124) (2 * ss_max) +
          min (net_business_income * 0.9235 * 0.124)
            (max 0 (2 * ss_max - min (w2_medicare * 0.124) (2 * ss_max))) -
          soc_tax_paid)"
    using absent
    by (simp add: compute_social_security_tax_def get_default_def Let_def mult.commute)
  have niit_value:
    "compute_investment_tax params federal investment_income agi =
       (case lookup_fed_params federal ''joint'' of
          Inl e \<Rightarrow> Inl e
        | Inr fp \<Rightarrow>
            if agi \<le> get_default 200000 (niit_threshold fp) then Inr 0
            else Inr (0.038 * max (min investment_income
                                     (agi - get_default 200000 (niit_threshold fp))) 0))"
    using absent
    by (simp add: compute_investment_tax_def get_default_def Let_def split: sum.splits)
  show "compute_medicare_tax params federal w2_medicare net_business_income med_tax_paid =
       compute_medicare_tax (params\<lparr>filing_status := Some ''single''\<rparr>) federal
         w2_medicare net_business_income med_tax_paid \<and>
     compute_social_security_tax params w2_medicare net_business_income ss_max soc_tax_paid =
       compute_social_security_tax (params\<lparr>filing_status := Some ''joint''\<rparr>)
         w2_medicare net_business_income ss_max soc_tax_paid \<and>
     compute_investment_tax params federal investment_income agi =
       compute_investment_tax (params\<lparr>filing_status := Some ''joint''\<rparr>) federal
         investment_income agi \<and>
     compute_medicare_tax params federal w2_medicare net_business_income med_tax_paid =
       (case lookup_fed_params federal ''single'' of
          Inl e \<Rightarrow> Inl e
        | Inr fp \<Rightarrow>
            Inr (max (0.0145 * w2_medicare +
                      0.009 * max 0 (w2_medicare + net_business_income * 0.9235 -
                                     get_default 200000 (medicare_threshold fp)) -
                      med_tax_paid) 0)) \<and>
     compute_social_security_tax params w2_medicare net_business_income ss_max soc_tax_paid =
       - (min (w2_medicare * 0.124) (2 * ss_max) +
          min (net_business_income * 0.9235 * 0.124)
            (max 0 (2 * ss_max - min (w2_medicare * 0.124) (2 * ss_max))) -
          soc_tax_paid) \<and>
     compute_investment_tax params federal investment_income agi =
       (case lookup_fed_params federal ''joint'' of
          Inl e \<Rightarrow> Inl e
        | Inr fp \<Rightarrow>
            if agi \<le> get_default 200000 (niit_threshold fp) then Inr 0
            else Inr (0.038 * max (min investment_income
                                     (agi - get_default 200000 (niit_threshold fp))) 0))"
    using medicare_as_single ss_as_joint niit_as_joint medicare_value ss_value niit_value
    by blast
qed

theorem filing_status_defaults_differ_witness:
  "filing_status empty_params = None \<and>
   compute_medicare_tax empty_params example_federal 220000 0 0 = Inr 3370 \<and>
   compute_medicare_tax (empty_params\<lparr>filing_status := Some ''single''\<rparr>) example_federal
     220000 0 0 = Inr 3370 \<and>
   compute_medicare_tax (empty_params\<lparr>filing_status := Some ''joint''\<rparr>) example_federal
     220000 0 0 = Inr 3190 \<and>
   compute_social_security_tax empty_params 220000 0 10000 0 = - 20000 \<and>
   compute_social_security_tax (empty_params\<lparr>filing_status := Some ''joint''\<rparr>)
     220000 0 10000 0 = - 20000 \<and>
   compute_social_security_tax (empty_params\<lparr>filing_status := Some ''single''\<rparr>)
     220000 0 10000 0 = - 10000 \<and>
   compute_investment_tax empty_params example_federal 50000 240000 = Inr 0 \<and>
   compute_investment_tax (empty_params\<lparr>filing_status := Some ''joint''\<rparr>) example_federal
     50000 240000 = Inr 0 \<and>
   compute_investment_tax (empty_params\<lparr>filing_status := Some ''single''\<rparr>) example_federal
     50000 240000 = Inr 1520 \<and>
   compute_investment_tax empty_params example_federal 50000 260000 = Inr 380 \<and>
   compute_investment_tax (empty_params\<lparr>filing_status := Some ''joint''\<rparr>) example_federal
     50000 260000 = Inr 380 \<and>
   compute_investment_tax (empty_params\<lparr>filing_status := Some ''single''\<rparr>) example_federal
     50000 260000 = Inr 1900"
proof -
  have absent: "filing_status empty_params = None"
    by (simp add: empty_params_def)
  have joint_entry:
    "lookup_fed_params example_federal ''joint'' =
       Inr \<lparr>niit_threshold = Some 250000, medicare_threshold = Some 250000\<rparr>"
    and single_entry:
    "lookup_fed_params example_federal ''single'' =
       Inr \<lparr>niit_threshold = Some 200000, medicare_threshold = Some 200000\<rparr>"
    by (simp_all add: lookup_fed_params_def example_federal_def)
  have low: "compute_medicare_tax empty_params example_federal 220000 0 0 = Inr 3370 \<and>
      compute_medicare_tax (empty_params\<lparr>filing_status := Some ''single''\<rparr>)
        example_federal 220000 0 0 = Inr 3370 \<and>
      compute_social_security_tax empty_params 220000 0 10000 0 = - 20000 \<and>
      compute_social_security_tax (empty_params\<lparr>filing_status := Some ''joint''\<rparr>)
        220000 0 10000 0 = - 20000 \<and>
      compute_investment_tax empty_params example_federal 50000 240000 = Inr 0 \<and>
      compute_investment_tax (empty_params\<lparr>filing_status := Some ''joint''\<rparr>)
        example_federal 50000 240000 = Inr 0"
    using filing_status_defaults_differ
        [of empty_params example_federal 220000 0 0 10000 0 50000 240000] absent
    by (auto simp add: joint_entry single_entry get_default_def)
  have high: "compute_investment_tax empty_params example_federal 50000 260000 = Inr 380 \<and>
      compute_investment_tax (empty_params\<lparr>filing_status := Some ''joint''\<rparr>)
        example_federal 50000 260000 = Inr 380"
    using filing_status_defaults_differ
        [of empty_params example_federal 220000 0 0 10000 0 50000 260000] absent
    by (auto simp add: joint_entry single_entry get_default_def)
  have others:
    "compute_medicare_tax (empty_params\<lparr>filing_status := Some ''joint''\<rparr>)
       example_federal 220000 0 0 = Inr 3190 \<and>
     compute_social_security_tax (empty_params\<lparr>filing_status := Some ''single''\<rparr>)
       220000 0 10000 0 = - 10000 \<and>
     compute_investment_tax (empty_params\<lparr>filing_status := Some ''single''\<rparr>)
       example_federal 50000 240000 = Inr 1520 \<and>
     compute_investment_tax (empty_params\<lparr>filing_status := Some ''single''\<rparr>)
       example_federal 50000 260000 = Inr 1900"
    by (simp add: compute_medicare_tax_def compute_social_security_tax_def
        compute_investment_tax_def empty_params_def get_default_def joint_entry single_entry)
  show ?thesis
    using absent low high others by simp
qed

subsection \<open>Brackets and surcharges\<close>

lemma bracket_step_accrual:
  "bracket_step income brackets i tax = tax + bracket_accrual income brackets i"
  by (simp add: bracket_step_def bracket_accrual_def Let_def mult.commute)

lemma bracket_fold_sum:
  "fold (bracket_step income brackets) [0..<n] tax =
     tax + (\<Sum>i<n. bracket_accrual income brackets i)"
  by (induction n) (simp_all add: bracket_step_accrual)

lemma compute_bracket_tax_sum:
  "compute_bracket_tax income brackets =
     max (\<Sum>i<length brackets. bracket_accrual income brackets i) 0"
  by (simp add: compute_bracket_tax_def bracket_fold_sum)

lemma example_brackets_value:
  "compute_bracket_tax income example_brackets =
     max ((if income > 0 then 0.1 * min income 10000 else 0) +
          (if income > 10000 then 0.2 * (income - 10000) else 0)) 0"
  by (simp add: compute_bracket_tax_sum example_brackets_def bracket_accrual_def
      lessThan_Suc numeral_2_eq_2)

text \<open>
  C2. For every taxable income, negative ones included, and every bracket table,
  \<open>compute_bracket_tax\<close> is the sum of the accruals of all brackets (for each bracket
  but the last with income above its threshold, the rate times
  \<open>min income next_threshold - threshold\<close>; for the last, the rate times
  \<open>income - threshold\<close> when the income exceeds it), clamped at 0 from below. For the
  table of a 10 percent bracket from 0 and a 20 percent bracket from 10000, an income of
  5000 gives 500, an income of 15000 gives 2000, and an income of 0 or less gives 0.
\<close>

theorem bracket_tax_accrual:
  "compute_bracket_tax income brackets =
     max (\<Sum>i<length brackets. bracket_accrual income brackets i) 0 \<and>
   compute_bracket_tax 5000 example_brackets = 500 \<and>
   compute_bracket_tax 15000 example_brackets = 2000 \<and>
   (income \<le> 0 \<longrightarrow> compute_bracket_tax income example_brackets = 0)"
proof -
  have "compute_bracket_tax income brackets =
          max (\<Sum>i<length brackets. bracket_accrual income brackets i) 0"
    by (rule compute_bracket_tax_sum)
  moreover have "compute_bracket_tax 5000 example_brackets = 500"
    by (simp add: example_brackets_value)
  moreover have "compute_bracket_tax 15000 example_brackets = 2000"
    by (simp add: example_brackets_value)
  moreover have "income \<le> 0 \<longrightarrow> compute_bracket_tax income example_brackets = 0"
    by (simp add: example_brackets_value)
  ultimately show ?thesis by blast
qed

theorem bracket_tax_accrual_witness:
  "compute_bracket_tax (- 300) example_brackets = 0 \<and>
   compute_bracket_tax 0 example_brackets = 0 \<and>
   compute_bracket_tax 12000 example_brackets = 1400"
  using bracket_tax_accrual [of "- 300" example_brackets]
    bracket_tax_accrual [of 0 example_brackets]
    bracket_tax_accrual [of 12000 example_brackets]
  by (simp add: example_brackets_def bracket_accrual_def lessThan_Suc numeral_2_eq_2)

lemma bracket_accrual_mono:
  assumes xy: "x \<le> y"
    and sorted: "sorted_wrt (<) (map threshold brackets)"
    and i: "i < length brackets"
    and r: "0 \<le> rate (brackets ! i)"
  shows "bracket_accrual x brackets i \<le> bracket_accrual y brackets i"
proof (cases "i + 1 = length brackets")
  case True
  then show ?thesis
    using xy r by (auto simp: bracket_accrual_def intro: mult_left_mono)
next
  case False
  with i have "i + 1 < length brackets" by simp
  with sorted have lt: "threshold (brackets ! i) < threshold (brackets ! (i + 1))"
    by (simp add: sorted_wrt_iff_nth_less)
  show ?thesis
    using xy r lt False by (auto simp: bracket_accrual_def intro!: mult_left_mono)
qed

lemma compute_bracket_tax_mono:
  assumes "x \<le> y" "sorted_wrt (<) (map threshold brackets)"
    and "\<forall>b \<in> set brackets. 0 \<le> rate b"
  shows "compute_bracket_tax x brackets \<le> compute_bracket_tax y brackets"
proof -
  have "(\<Sum>i<length brackets. bracket_accrual x brackets i) \<le>
        (\<Sum>i<length brackets. bracket_accrual y brackets i)"
    using assms by (intro sum_mono bracket_accrual_mono) auto
  then show ?thesis by (simp add: compute_bracket_tax_sum)
qed

lemma surcharge_fold_mono:
  assumes "x \<le> y" "\<forall>s \<in> set ss. 0 \<le> get_default 0 (surcharge_rate s)" "a \<le> b"
  shows "fold (surcharge_step x) ss a \<le> fold (surcharge_step y) ss b"
  using assms
proof (induction ss arbitrary: a b)
  case Nil
  then show ?case by simp
next
  case (Cons s ss)
  have "surcharge_step x s a \<le> surcharge_step y s b"
    using Cons.prems by (auto simp: surcharge_step_def Let_def intro!: add_mono mult_left_mono)
  with Cons show ?case by simp
qed

text \<open>
  C8. For a fixed bracket table with strictly increasing thresholds and rates in
  \<open>[0, 1]\<close>, and a fixed list of surcharge rules with non-negative rates,
  \<open>compute_bracket_tax\<close> and \<open>compute_surcharges\<close> do not decrease when the
  income grows.
\<close>

theorem bracket_and_surcharge_monotone:
  assumes "x \<le> y"
    and "sorted_wrt (<) (map threshold brackets)"
    and "\<forall>b \<in> set brackets. 0 \<le> rate b \<and> rate b \<le> 1"
    and "\<forall>s \<in> set (get_default [] surcharges). 0 \<le> get_default 0 (surcharge_rate s)"
  shows "compute_bracket_tax x brackets \<le> compute_bracket_tax y brackets \<and>
         compute_surcharges x surcharges \<le> compute_surcharges y surcharges"
  using assms
  by (simp add: compute_bracket_tax_mono compute_surcharges_def surcharge_fold_mono)

theorem bracket_and_surcharge_monotone_witness:
  "sorted_wrt (<) (map threshold example_brackets) \<and>
   compute_bracket_tax 5000 example_brackets \<le> compute_bracket_tax 15000 example_brackets \<and>
   compute_surcharges 5000 example_surcharges \<le> compute_surcharges 1500000 example_surcharges \<and>
   compute_surcharges 1500000 example_surcharges = 5000"
proof -
  have "compute_bracket_tax 5000 example_brackets \<le> compute_bracket_tax 15000 example_brackets \<and>
        compute_surcharges 5000 example_surcharges \<le> compute_surcharges 15000 example_surcharges"
    by (rule bracket_and_surcharge_monotone)
       (simp_all add: example_brackets_def example_surcharges_def get_default_def)
  moreover have "compute_surcharges 15000 example_surcharges \<le> compute_surcharges 1500000 example_surcharges \<and>
     compute_bracket_tax 15000 example_brackets \<le> compute_bracket_tax 1500000 example_brackets"
    using bracket_and_surcharge_monotone [of 15000 1500000 example_brackets example_surcharges]
    by (simp add: example_brackets_def example_surcharges_def get_default_def)
  moreover have "compute_surcharges 1500000 example_surcharges = 5000"
    by (simp add: compute_surcharges_def example_surcharges_def get_default_def
        surcharge_step_def)
  moreover have "sorted_wrt (<) (map threshold example_brackets)"
    by (simp add: example_brackets_def)
  ultimately show ?thesis by simp
qed

subsection \<open>Mortgage interest\<close>

lemma py_str_examples: "py_str 2021 = ''2021''" "py_str (-45) = ''-45''" "py_str 0 = ''0''"
  by (simp_all add: py_str_def str_nat.simps)

text \<open>
  C5. When the configuration has no override for the requested year and no ledger account,
  but has principal \<open>P\<close>, monthly rate \<open>r\<close>, payment \<open>pay\<close> and start
  year \<open>sy\<close>, \<open>compute_interest\<close> returns
  \<open>paid_until (start_month + 12) - paid_until start_month\<close> with
  \<open>start_month = max 0 (12 * (year - sy))\<close>, the balance after \<open>m\<close> payments
  \<open>P * (1 + r) ^ m - pay * ((1 + r) ^ m - 1) / r\<close> (or \<open>P - pay * m\<close> when
  \<open>r = 0\<close>) and \<open>paid_until m = pay * m - (P - balance m)\<close>.
\<close>

theorem amortization_interest:
  assumes "interest_by_year params = None \<or>
           (\<exists>by_year. interest_by_year params = Some by_year \<and> by_year (py_str year) = None)"
    and "interest_account params = None"
    and "principal params = Some P" and "monthly_rate params = Some r"
    and "payment params = Some pay" and "start_year params = Some sy"
  shows "compute_interest py_float subprocess_run journal_hash save_ok cache params year =
           (let start_month = nat (max 0 (12 * (year - sy)));
                balance = (\<lambda>m::nat. if r = 0 then P - pay * real m
                                     else P * (1 + r) ^ m - pay * ((1 + r) ^ m - 1) / r);
                paid_until = (\<lambda>m::nat. pay * real m - (P - balance m))
            in Inr (Finite (paid_until (start_month + 12) - paid_until start_month), cache))"
proof -
  obtain n where n: "max 0 (12 * (year - sy)) = int n"
    using zero_le_imp_eq_int [of "max 0 (12 * (year - sy))"] by auto
  then have n': "max 0 (12 * year - 12 * sy) = int n"
    by (simp add: algebra_simps)
  have "(case (case interest_by_year params of
                 None \<Rightarrow> None
               | Some by_year \<Rightarrow> by_year (py_str year)) of
           Some override \<Rightarrow> Inr (Finite override, cache)
         | None \<Rightarrow> x) = x" for x :: "error + pyfloat \<times> cache"
    using assms(1) by auto
  then have "compute_interest py_float subprocess_run journal_hash save_ok cache params year =
               Inr (Finite (interest_paid_until P r pay (int n + 12) -
                            interest_paid_until P r pay (int n)),
                    cache)"
    using assms(2-) by (simp add: compute_interest_def Let_def n')
  moreover have "nat (int n + 12) = n + 12"
    by simp
  ultimately show ?thesis
    by (simp add: interest_paid_until_def balance_after_def Let_def n n')
qed

theorem amortization_interest_witness:
  "interest_by_year example_loan = None \<and> interest_account example_loan = None \<and>
   (\<exists>i. compute_interest example_float no_ledger ''h'' True Map.empty example_loan 2020 =
         Inr (Finite i, Map.empty) \<and> 10680 < i \<and> i < 10681) \<and>
   (\<exists>i. compute_interest example_float no_ledger ''h'' True Map.empty example_loan 2021 =
         Inr (Finite i, Map.empty) \<and> 10412 < i \<and> i < 10413) \<and>
   compute_interest example_float no_ledger ''h'' True Map.empty example_loan 2019 =
     compute_interest example_float no_ledger ''h'' True Map.empty example_loan 2020 \<and>
   compute_interest example_float no_ledger ''h'' True Map.empty
     (example_loan\<lparr>monthly_rate := Some 0\<rparr>) 2021 = Inr (Finite 0, Map.empty) \<and>
   compute_interest example_float no_ledger ''h'' True Map.empty
     (example_loan\<lparr>interest_by_year := Some [''2019'' \<mapsto> 1234]\<rparr>) 2020 =
     compute_interest example_float no_ledger ''h'' True Map.empty example_loan 2020 \<and>
   compute_interest example_float no_ledger ''h'' True Map.empty
     (example_loan\<lparr>interest_by_year := Some [''2019'' \<mapsto> 1234]\<rparr>) 2019 =
     Inr (Finite 1234, Map.empty)"
  using amortization_interest
      [of example_loan 2020 300000 "0.003" 1500 2020 example_float no_ledger "''h''" True Map.empty]
    amortization_interest
      [of example_loan 2021 300000 "0.003" 1500 2020 example_float no_ledger "''h''" True Map.empty]
    amortization_interest
      [of example_loan 2019 300000 "0.003" 1500 2020 example_float no_ledger "''h''" True Map.empty]
    amortization_interest
      [of "example_loan\<lparr>monthly_rate := Some 0\<rparr>" 2021 300000 0 1500 2020
          example_float no_ledger "''h''" True Map.empty]
    amortization_interest
      [of "example_loan\<lparr>interest_by_year := Some [''2019'' \<mapsto> 1234]\<rparr>" 2020
          300000 "0.003" 1500 2020 example_float no_ledger "''h''" True Map.empty]
  by (simp add: example_loan_def empty_params_def Let_def power_divide py_str_def
      str_nat.simps compute_interest_def)

subsection \<open>Ledger query output\<close>

lemma dropWhile_all_iff: "(\<forall>x \<in> set (dropWhile P xs). P x) \<longleftrightarrow> dropWhile P xs = []"
proof
  assume all: "\<forall>x \<in> set (dropWhile P xs). P x"
  show "dropWhile P xs = []"
  proof (rule ccontr)
    assume ne: "dropWhile P xs \<noteq> []"
    then have "\<not> P (hd (dropWhile P xs))" by (rule hd_dropWhile)
    moreover from ne have "hd (dropWhile P xs) \<in> set (dropWhile P xs)" by simp
    ultimately show False using all by blast
  qed
next
  assume e: "dropWhile P xs = []"
  show "\<forall>x \<in> set (dropWhile P xs). P x"
    unfolding e by simp
qed

lemma strip_empty_iff: "strip s = [] \<longleftrightarrow> (\<forall>c \<in> set s. is_space c)"
proof -
  have "strip s = [] \<longleftrightarrow> (\<forall>x \<in> set (dropWhile is_space s). is_space x)"
    by (simp add: strip_def dropWhile_eq_Nil_conv)
  also have "\<dots> \<longleftrightarrow> dropWhile is_space s = []"
    by (rule dropWhile_all_iff)
  also have "\<dots> \<longleftrightarrow> (\<forall>c \<in> set s. is_space c)"
    by (simp add: dropWhile_eq_Nil_conv)
  finally show ?thesis .
qed

lemma strip_last: "strip s \<noteq> [] \<Longrightarrow> \<not> is_space (last (strip s))"
  by (simp add: strip_def last_rev hd_dropWhile)

lemma linebreak_is_space: "is_linebreak c \<Longrightarrow> is_space c"
  by (auto simp: is_linebreak_def is_space_def)

lemma splitlines_from_last:
  "s \<noteq> [] \<Longrightarrow> \<not> is_linebreak (last s) \<Longrightarrow>
     splitlines_from line s \<noteq> [] \<and> last (splitlines_from line s) \<noteq> [] \<and>
     last (last (splitlines_from line s)) = last s"
proof (induction line s rule: splitlines_from.induct)
  case (1 line)
  then show ?case by simp
next
  case (2 line c)
  then show ?case by simp
next
  case (3 line c d cs)
  have tail: "last (c # d # cs) = last (d # cs)" by simp
  show ?case
  proof (cases "c = 13 \<and> d = 10")
    case True
    have "cs \<noteq> []"
    proof
      assume "cs = []"
      with "3.prems"(2) True show False by (simp add: is_linebreak_def)
    qed
    moreover from this have "last (c # d # cs) = last cs" by simp
    ultimately have "splitlines_from [] cs \<noteq> [] \<and> last (splitlines_from [] cs) \<noteq> [] \<and>
        last (last (splitlines_from [] cs)) = last (c # d # cs)"
      using "3.IH"(1) [OF True] "3.prems"(2) by simp
    moreover have "splitlines_from line (c # d # cs) = rev line # splitlines_from [] cs"
      using True by simp
    ultimately show ?thesis by simp
  next
    case False
    show ?thesis
    proof (cases "is_linebreak c")
      case True
      have "splitlines_from [] (d # cs) \<noteq> [] \<and> last (splitlines_from [] (d # cs)) \<noteq> [] \<and>
          last (last (splitlines_from [] (d # cs))) = last (c # d # cs)"
        using "3.IH"(2) [OF False True] "3.prems"(2) unfolding tail by blast
      moreover have "splitlines_from line (c # d # cs) = rev line # splitlines_from [] (d # cs)"
        using False True by auto
      ultimately show ?thesis by simp
    next
      case nb: False
      have "splitlines_from (c # line) (d # cs) \<noteq> [] \<and>
          last (splitlines_from (c # line) (d # cs)) \<noteq> [] \<and>
          last (last (splitlines_from (c # line) (d # cs))) = last (c # d # cs)"
        using "3.IH"(3) [OF False nb] "3.prems"(2) unfolding tail by blast
      moreover have "splitlines_from line (c # d # cs) = splitlines_from (c # line) (d # cs)"
        using False nb by auto
      ultimately show ?thesis by simp
    qed
  qed
qed

lemma split_from_nonempty:
  "word \<noteq> [] \<or> (\<exists>c \<in> set s. \<not> is_space c) \<Longrightarrow> split_from word s \<noteq> []"
  by (induction s arbitrary: word) auto

lemma last_line_has_field:
  assumes "strip output \<noteq> []"
  shows "\<exists>l ls field rest.
           splitlines (strip output) = l # ls \<and> split (last (l # ls)) = field # rest"
proof -
  have nsp: "\<not> is_space (last (strip output))"
    using assms by (rule strip_last)
  then have "\<not> is_linebreak (last (strip output))"
    using linebreak_is_space by blast
  with assms have lines: "splitlines (strip output) \<noteq> []"
    and line: "last (splitlines (strip output)) \<noteq> []"
    and ch: "last (last (splitlines (strip output))) = last (strip output)"
    using splitlines_from_last [of "strip output" "[]"] by (simp_all add: splitlines_def)
  from line ch nsp have "\<exists>c \<in> set (last (splitlines (strip output))). \<not> is_space c"
    using last_in_set by metis
  then have "split (last (splitlines (strip output))) \<noteq> []"
    by (simp add: split_def split_from_nonempty)
  with lines show ?thesis
    by (metis neq_Nil_conv)
qed

lemma py_abs_nonneg: "x \<noteq> NaN \<Longrightarrow> py_nonneg (py_abs x)"
  by (cases x) simp_all

lemma py_abs_nan_iff: "py_abs x = NaN \<longleftrightarrow> x = NaN"
  by (cases x) simp_all

lemma parse_hledger_output_blank:
  "\<forall>c \<in> set output. is_space c \<Longrightarrow> parse_hledger_output py_float output = Inr (Finite 0)"
  by (simp add: parse_hledger_output_def strip_empty_iff)

lemma parse_hledger_output_field:
  assumes "strip output \<noteq> []"
  shows "\<exists>l ls field rest.
           splitlines (strip output) = l # ls \<and> split (last (l # ls)) = field # rest \<and>
           parse_hledger_output py_float output =
             Inr (case py_float (remove_char 44 (remove_char 36 field)) of
                    None \<Rightarrow> Finite 0
                  | Some amount \<Rightarrow> py_abs amount)"
proof -
  obtain l ls field rest where
    "splitlines (strip output) = l # ls" "split (last (l # ls)) = field # rest"
    using last_line_has_field [OF assms] by blast
  then show ?thesis
    using assms by (auto simp: parse_hledger_output_def Let_def split: option.splits)
qed

lemma parse_hledger_output_returns:
  "\<exists>amount. parse_hledger_output py_float output = Inr amount \<and>
     (amount \<noteq> NaN \<longrightarrow> py_nonneg amount)"
proof (cases "strip output = []")
  case True
  then show ?thesis by (simp add: parse_hledger_output_def)
next
  case False
  then show ?thesis
    using parse_hledger_output_field [OF False, of py_float]
    by (auto split: option.splits simp: py_abs_nonneg py_abs_nan_iff)
qed

lemma parse_hledger_output_nonneg:
  assumes "\<forall>s. py_float s \<noteq> Some NaN"
  shows "\<exists>amount. parse_hledger_output py_float output = Inr amount \<and> py_nonneg amount"
proof -
  obtain amount where a: "parse_hledger_output py_float output = Inr amount"
    and n: "amount \<noteq> NaN \<longrightarrow> py_nonneg amount"
    using parse_hledger_output_returns by blast
  have "amount \<noteq> NaN"
  proof (cases "strip output = []")
    case True
    with a show ?thesis by (auto simp: parse_hledger_output_def)
  next
    case False
    then obtain field where f: "parse_hledger_output py_float output =
        Inr (case py_float (remove_char 44 (remove_char 36 field)) of
               None \<Rightarrow> Finite 0
             | Some x \<Rightarrow> py_abs x)"
      using parse_hledger_output_field [OF False, of py_float] by blast
    show ?thesis
    proof (cases "py_float (remove_char 44 (remove_char 36 field))")
      case None
      with f a show ?thesis by auto
    next
      case (Some x)
      with assms have "x \<noteq> NaN" by metis
      then have "py_abs x \<noteq> NaN" by (simp add: py_abs_nan_iff)
      with f a Some show ?thesis by auto
    qed
  qed
  with a n show ?thesis by blast
qed

lemma run_hledger_command_hit:
  "cache_lookup cache journal_hash (args, year) = Some cached \<Longrightarrow>
     run_hledger_command py_float subprocess_run journal_hash save_ok cache args year add_format =
       Inr (cached, cache)"
  by (simp add: run_hledger_command_def Let_def)

lemma run_hledger_command_failed:
  "cache_lookup cache journal_hash (args, year) = None \<Longrightarrow>
   subprocess_run (hledger_cmd args year add_format) = Inl e \<Longrightarrow>
     run_hledger_command py_float subprocess_run journal_hash save_ok cache args year add_format =
       (if e = CalledProcessError then Inr (Finite 0, cache) else Inl e)"
  by (simp add: run_hledger_command_def Let_def)

lemma run_hledger_command_parsed:
  assumes "cache_lookup cache journal_hash (args, year) = None"
    and "subprocess_run (hledger_cmd args year add_format) = Inr stdout"
  shows "\<exists>amount.
           parse_hledger_output py_float stdout = Inr amount \<and>
           (amount \<noteq> NaN \<longrightarrow> py_nonneg amount) \<and>
           run_hledger_command py_float subprocess_run journal_hash save_ok cache args year
             add_format =
             Inr (amount,
                  if save_ok
                  then cache(journal_hash \<mapsto>
                         (get_default Map.empty (cache journal_hash))((args, year) \<mapsto> amount))
                  else cache)"
proof -
  obtain amount where "parse_hledger_output py_float stdout = Inr amount"
    "amount \<noteq> NaN \<longrightarrow> py_nonneg amount"
    using parse_hledger_output_returns by blast
  then show ?thesis
    using assms by (simp add: run_hledger_command_def Let_def)
qed

lemma cache_nonneg_update:
  assumes "cache_nonneg cache" "py_nonneg amount"
  shows "cache_nonneg (cache(h \<mapsto> (get_default Map.empty (cache h))(k \<mapsto> amount)))"
  using assms
  by (auto simp: cache_nonneg_def get_default_def split: option.splits if_splits)

lemma run_hledger_command_nonneg:
  assumes inv: "cache_nonneg cache"
    and nan: "\<forall>s. py_float s \<noteq> Some NaN"
    and ret: "run_hledger_command py_float subprocess_run journal_hash save_ok cache args year
                add_format = Inr (amount, cache')"
  shows "py_nonneg amount \<and> cache_nonneg cache'"
proof (cases "cache_lookup cache journal_hash (args, year)")
  case (Some cached)
  then have "py_nonneg cached"
    using inv by (auto simp: cache_nonneg_def cache_lookup_def split: option.splits)
  with Some ret inv show ?thesis
    by (simp add: run_hledger_command_hit)
next
  case None
  show ?thesis
  proof (cases "subprocess_run (hledger_cmd args year add_format)")
    case (Inl e)
    with None ret inv show ?thesis
      by (auto simp: run_hledger_command_failed split: if_splits)
  next
    case (Inr stdout)
    obtain parsed where p: "parse_hledger_output py_float stdout = Inr parsed" "py_nonneg parsed"
      using parse_hledger_output_nonneg [OF nan] by blast
    have "run_hledger_command py_float subprocess_run journal_hash save_ok cache args year
            add_format =
          Inr (parsed,
               if save_ok
               then cache(journal_hash \<mapsto>
                      (get_default Map.empty (cache journal_hash))((args, year) \<mapsto> parsed))
               else cache)"
      using None Inr p(1) by (simp add: run_hledger_command_def Let_def)
    with ret p(2) inv show ?thesis
      by (auto simp: cache_nonneg_update)
  qed
qed

lemma example_output_value:
  "parse_hledger_output numeral_float example_output = Inr (Finite 1234.5)"
  by (simp add: parse_hledger_output_def example_output_def numeral_float_def strip_def
      splitlines_def split_def remove_char_def is_space_def is_linebreak_def Let_def)

lemma example_plain_value:
  "parse_hledger_output numeral_float (map of_char ''$1,234.50'') = Inr (Finite 1234.5)"
  by (simp add: parse_hledger_output_def numeral_float_def strip_def
      splitlines_def split_def remove_char_def is_space_def is_linebreak_def Let_def)

lemma example_unparseable_value:
  "parse_hledger_output numeral_float (map of_char ''no total'') = Inr (Finite 0)"
  by (simp add: parse_hledger_output_def numeral_float_def strip_def
      splitlines_def split_def remove_char_def is_space_def is_linebreak_def Let_def)

lemma example_nan_value: "parse_hledger_output example_float (map of_char ''nan'') = Inr NaN"
  by (simp add: parse_hledger_output_def example_float_def numeral_float_def strip_def
      splitlines_def split_def remove_char_def is_space_def is_linebreak_def Let_def)

lemma numeral_float_no_nan: "numeral_float s \<noteq> Some NaN"
  by (simp add: numeral_float_def)

text \<open>
  C9, as the code has it. For every output string, \<open>parse_hledger_output\<close> returns
  and never raises: an output that is empty or consists of white space gives 0; otherwise
  the last line has a first field, and the result is 0 when \<^verbatim>\<open>float\<close>
  rejects that field once dollar signs and commas are removed, else the absolute value of
  the float it reads, so a negative total gives the same aggregate as its positive
  counterpart. The total is non-negative whenever \<^verbatim>\<open>float\<close> does not read
  the field as \<^verbatim>\<open>nan\<close>. A query through \<open>run_hledger_command\<close>
  returns the cached total as it is on a cache hit; otherwise it returns 0 when the command
  exits with an error, raises what \<^verbatim>\<open>subprocess.run\<close> raises besides, and
  else returns the parsed total. So a query that returns gives a non-negative total
  whenever the cached totals are non-negative and \<^verbatim>\<open>float\<close> yields no
  \<^verbatim>\<open>nan\<close>, and it keeps the cached totals non-negative.
\<close>

theorem aggregate_total_nonneg_unless_nan:
  "(\<exists>amount. parse_hledger_output py_float stdout = Inr amount \<and>
      (amount \<noteq> NaN \<longrightarrow> py_nonneg amount)) \<and>
   ((\<forall>c \<in> set stdout. is_space c) \<longrightarrow>
      parse_hledger_output py_float stdout = Inr (Finite 0)) \<and>
   (strip stdout \<noteq> [] \<longrightarrow>
      (\<exists>l ls field rest.
         splitlines (strip stdout) = l # ls \<and> split (last (l # ls)) = field # rest \<and>
         parse_hledger_output py_float stdout =
           Inr (case py_float (remove_char 44 (remove_char 36 field)) of
                  None \<Rightarrow> Finite 0
                | Some amount \<Rightarrow> py_abs amount))) \<and>
   py_abs (Finite (- r)) = py_abs (Finite r) \<and>
   ((\<forall>s. py_float s \<noteq> Some NaN) \<longrightarrow>
      (\<exists>amount. parse_hledger_output py_float stdout = Inr amount \<and> py_nonneg amount)) \<and>
   (cache_lookup cache journal_hash (args, year) = Some cached \<longrightarrow>
      run_hledger_command py_float subprocess_run journal_hash save_ok cache args year
        add_format = Inr (cached, cache)) \<and>
   (cache_lookup cache journal_hash (args, year) = None \<and>
    subprocess_run (hledger_cmd args year add_format) = Inl e \<longrightarrow>
      run_hledger_command py_float subprocess_run journal_hash save_ok cache args year
        add_format = (if e = CalledProcessError then Inr (Finite 0, cache) else Inl e)) \<and>
   (cache_lookup cache journal_hash (args, year) = None \<and>
    subprocess_run (hledger_cmd args year add_format) = Inr out \<longrightarrow>
      (\<exists>amount.
         parse_hledger_output py_float out = Inr amount \<and>
         (amount \<noteq> NaN \<longrightarrow> py_nonneg amount) \<and>
         run_hledger_command py_float subprocess_run journal_hash save_ok cache args year
           add_format =
           Inr (amount,
                if save_ok
                then cache(journal_hash \<mapsto>
                       (get_default Map.empty (cache journal_hash))((args, year) \<mapsto> amount))
                else cache))) \<and>
   (cache_nonneg cache \<and> (\<forall>s. py_float s \<noteq> Some NaN) \<and>
    run_hledger_command py_float subprocess_run journal_hash save_ok cache args year
      add_format = Inr (result, cache') \<longrightarrow>
      py_nonneg result \<and> cache_nonneg cache')"
proof -
  have "py_abs (Finite (- r)) = py_abs (Finite r)"
    by simp
  then show ?thesis
    using parse_hledger_output_returns [of py_float stdout]
      parse_hledger_output_blank [of stdout py_float]
      parse_hledger_output_field [of stdout py_float]
      parse_hledger_output_nonneg [of py_float stdout]
      run_hledger_command_hit
        [of cache journal_hash args year cached py_float subprocess_run save_ok add_format]
      run_hledger_command_failed
        [of cache journal_hash args year subprocess_run add_format e py_float save_ok]
      run_hledger_command_parsed
        [of cache journal_hash args year subprocess_run add_format out py_float save_ok]
      run_hledger_command_nonneg
        [of cache py_float subprocess_run journal_hash save_ok args year add_format result
            cache']
    by blast
qed

theorem aggregate_total_nonneg_unless_nan_witness:
  "strip example_output \<noteq> [] \<and>
   parse_hledger_output numeral_float example_output = Inr (Finite 1234.5) \<and>
   parse_hledger_output numeral_float (map of_char ''$1,234.50'') = Inr (Finite 1234.5) \<and>
   parse_hledger_output numeral_float [] = Inr (Finite 0) \<and>
   parse_hledger_output numeral_float [32, 10, 9] = Inr (Finite 0) \<and>
   parse_hledger_output numeral_float (map of_char ''no total'') = Inr (Finite 0) \<and>
   cache_lookup example_cache ''h'' ([''assets''], Some 2024) = Some (Finite (- 5)) \<and>
   run_hledger_command numeral_float (\<lambda>cmd. Inr example_output) ''h'' True example_cache
     [''assets''] (Some 2024) True = Inr (Finite (- 5), example_cache) \<and>
   run_hledger_command numeral_float no_ledger ''h'' True Map.empty
     [''assets''] (Some 2024) True = Inr (Finite 0, Map.empty) \<and>
   run_hledger_command numeral_float missing_ledger ''h'' True Map.empty
     [''assets''] (Some 2024) True = Inl FileNotFoundError \<and>
   cache_nonneg Map.empty \<and>
   run_hledger_command numeral_float (\<lambda>cmd. Inr example_output) ''h'' True Map.empty
     [''assets''] (Some 2024) True =
     Inr (Finite 1234.5, [''h'' \<mapsto> [([''assets''], Some 2024) \<mapsto> Finite 1234.5]]) \<and>
   cache_nonneg [''h'' \<mapsto> [([''assets''], Some 2024) \<mapsto> Finite 1234.5]]"
proof -
  have nonblank: "strip example_output \<noteq> []"
    by (simp add: strip_def example_output_def is_space_def)
  have blank: "parse_hledger_output numeral_float [] = Inr (Finite 0)"
    using aggregate_total_nonneg_unless_nan [where py_float = numeral_float and stdout = "[]"]
    by simp
  have spaces: "parse_hledger_output numeral_float [32, 10, 9] = Inr (Finite 0)"
    using aggregate_total_nonneg_unless_nan
        [where py_float = numeral_float and stdout = "[32, 10, 9]"]
    by (simp add: is_space_def)
  have hit: "cache_lookup example_cache ''h'' ([''assets''], Some 2024) = Some (Finite (- 5))"
    by (simp add: cache_lookup_def example_cache_def)
  have miss: "cache_lookup Map.empty ''h'' ([''assets''], Some 2024) = None"
    by (simp add: cache_lookup_def)
  have cached:
    "run_hledger_command numeral_float (\<lambda>cmd. Inr example_output) ''h'' True example_cache
       [''assets''] (Some 2024) True = Inr (Finite (- 5), example_cache)"
    using aggregate_total_nonneg_unless_nan
        [where cache = example_cache and journal_hash = "''h''" and args = "[''assets'']"
           and year = "Some 2024" and cached = "Finite (- 5)" and py_float = numeral_float
           and subprocess_run = "\<lambda>cmd. Inr example_output" and save_ok = True
           and add_format = True]
      hit
    by blast
  have failed:
    "run_hledger_command numeral_float no_ledger ''h'' True Map.empty
       [''assets''] (Some 2024) True = Inr (Finite 0, Map.empty)"
    using aggregate_total_nonneg_unless_nan
        [where cache = Map.empty and journal_hash = "''h''" and args = "[''assets'']"
           and year = "Some 2024" and e = CalledProcessError and py_float = numeral_float
           and subprocess_run = no_ledger and save_ok = True and add_format = True]
      miss
    by (simp add: no_ledger_def)
  have missing:
    "run_hledger_command numeral_float missing_ledger ''h'' True Map.empty
       [''assets''] (Some 2024) True = Inl FileNotFoundError"
    using aggregate_total_nonneg_unless_nan
        [where cache = Map.empty and journal_hash = "''h''" and args = "[''assets'']"
           and year = "Some 2024" and e = FileNotFoundError and py_float = numeral_float
           and subprocess_run = missing_ledger and save_ok = True and add_format = True]
      miss
    by (simp add: missing_ledger_def)
  have empty: "cache_nonneg Map.empty"
    by (simp add: cache_nonneg_def)
  have query:
    "run_hledger_command numeral_float (\<lambda>cmd. Inr example_output) ''h'' True Map.empty
       [''assets''] (Some 2024) True =
     Inr (Finite 1234.5, [''h'' \<mapsto> [([''assets''], Some 2024) \<mapsto> Finite 1234.5]])"
    using aggregate_total_nonneg_unless_nan
        [where cache = Map.empty and journal_hash = "''h''" and args = "[''assets'']"
           and year = "Some 2024" and out = example_output and py_float = numeral_float
           and subprocess_run = "\<lambda>cmd. Inr example_output" and save_ok = True
           and add_format = True]
      miss example_output_value
    by (auto simp: get_default_def)
  have kept: "cache_nonneg [''h'' \<mapsto> [([''assets''], Some 2024) \<mapsto> Finite 1234.5]]"
    using aggregate_total_nonneg_unless_nan
        [where cache = Map.empty and journal_hash = "''h''" and args = "[''assets'']"
           and year = "Some 2024" and py_float = numeral_float
           and subprocess_run = "\<lambda>cmd. Inr example_output" and save_ok = True
           and add_format = True and result = "Finite 1234.5"
           and cache' = "[''h'' \<mapsto> [([''assets''], Some 2024) \<mapsto> Finite 1234.5]]"]
      empty query numeral_float_no_nan
    by blast
  show ?thesis
    using example_output_value example_plain_value example_unparseable_value blank spaces
      nonblank hit cached failed missing empty kept
    by (simp add: query)
qed

text \<open>
  The output \<^verbatim>\<open>nan\<close>: \<^verbatim>\<open>float\<close> reads it as a number, so no
  \<^verbatim>\<open>ValueError\<close> is raised, and its absolute value is
  \<^verbatim>\<open>nan\<close> again, which is not non-negative. A query that gets this output
  from the ledger tool returns it and stores it in the cache.
\<close>

theorem aggregate_total_nan_counterexample:
  "parse_hledger_output example_float (map of_char ''nan'') = Inr NaN \<and>
   \<not> py_nonneg NaN \<and>
   run_hledger_command example_float (\<lambda>cmd. Inr (map of_char ''nan'')) ''h'' True Map.empty
     [''assets''] (Some 2024) True =
     Inr (NaN, [''h'' \<mapsto> [([''assets''], Some 2024) \<mapsto> NaN]])"
  using example_nan_value
  by (simp add: run_hledger_command_def cache_lookup_def get_default_def Let_def)

end
